theory Spec2Isabelle
  imports Main
begin

section \<open>JavaScript values used by the component\<close>

text \<open>
  The component \<^verbatim>\<open>DocumentTools\<close> of
  \<^verbatim>\<open>packages/edit-site/src/components/header-edit-mode/document-tools/index.js\<close>
  is a function from its props, the store selectors and two hooks to a tree of toolbar
  items. The values it coerces are JavaScript values: numbers are restricted to integers,
  objects are association lists of own properties.

  The source names the global \<^verbatim>\<open>window\<close>. An identifier is resolved in the scope
  first, and an undeclared one raises a ReferenceError before any operator sees a value;
  a declared one may still hold \<^verbatim>\<open>undefined\<close> or \<^verbatim>\<open>null\<close>, which is what the
  optional chaining of the source tests. \<open>DocumentTools\<close> below is the component once
  \<^verbatim>\<open>window\<close> has resolved to a value; \<open>DocumentTools_in_scope\<close> is the component
  in a scope that may or may not declare it.
\<close>

datatype jsval =
    JUndefined
  | JNull
  | JBool bool
  | JNum int
  | JStr string
  | JObj "(string \<times> jsval) list"

datatype js_error = TypeError | ReferenceError

text \<open>The global scope: the declared identifiers and their values.\<close>

type_synonym scope = "string \<rightharpoonup> jsval"

text \<open>Reading an identifier throws a ReferenceError when the scope does not declare it.\<close>

definition resolve_identifier :: "scope \<Rightarrow> string \<Rightarrow> js_error + jsval" where
  "resolve_identifier sc x = (case sc x of None \<Rightarrow> Inl ReferenceError | Some v \<Rightarrow> Inr v)"

fun truthy :: "jsval \<Rightarrow> bool" where
  "truthy JUndefined = False"
| "truthy JNull = False"
| "truthy (JBool b) = b"
| "truthy (JNum n) = (n \<noteq> 0)"
| "truthy (JStr s) = (s \<noteq> [])"
| "truthy (JObj ps) = True"

text \<open>\<^verbatim>\<open>a && b\<close>: the left operand when it is falsy, the right one otherwise.\<close>

definition js_and :: "jsval \<Rightarrow> jsval \<Rightarrow> jsval" where
  "js_and a b = (if truthy a then b else a)"

fun nullish :: "jsval \<Rightarrow> bool" where
  "nullish JUndefined = True"
| "nullish JNull = True"
| "nullish _ = False"

text \<open>Reading a property that a value does not have gives \<^verbatim>\<open>undefined\<close>.\<close>

fun own_property :: "jsval \<Rightarrow> string \<Rightarrow> jsval" where
  "own_property (JObj ps) k = (case map_of ps k of None \<Rightarrow> JUndefined | Some v \<Rightarrow> v)"
| "own_property _ k = JUndefined"

text \<open>\<^verbatim>\<open>v.k\<close> throws a TypeError on \<^verbatim>\<open>undefined\<close> and \<^verbatim>\<open>null\<close>.\<close>

definition get_member :: "jsval \<Rightarrow> string \<Rightarrow> js_error + jsval" where
  "get_member v k = (if nullish v then Inl TypeError else Inr (own_property v k))"

text \<open>\<^verbatim>\<open>v?.k\<close> is \<^verbatim>\<open>undefined\<close> on a nullish \<^verbatim>\<open>v\<close> and \<^verbatim>\<open>v.k\<close> otherwise.\<close>

definition opt_member :: "jsval \<Rightarrow> string \<Rightarrow> js_error + jsval" where
  "opt_member v k = (if nullish v then Inr JUndefined else get_member v k)"

section \<open>Stores, props, hooks\<close>

text \<open>
  The selectors that the component calls, as one snapshot: the edit-site store
  (\<^verbatim>\<open>__experimentalGetPreviewDeviceType\<close>, \<^verbatim>\<open>isInserterOpened\<close>,
  \<^verbatim>\<open>isListViewOpened\<close>, \<^verbatim>\<open>getEditorMode\<close>), the keyboard-shortcuts store
  (\<^verbatim>\<open>getShortcutRepresentation('core/edit-site/toggle-list-view')\<close>) and the
  preferences store (\<^verbatim>\<open>get(editSiteStore.name, 'fixedToolbar')\<close>).

  The component only negates \<^verbatim>\<open>hasFixedToolbar\<close>, \<^verbatim>\<open>isDistractionFree\<close> and
  \<^verbatim>\<open>showIconLabels\<close> or branches on them, so each is given by its truth value; the
  two open flags and the viewport match are booleans where they are produced. A mode is
  a string, compared with \<^verbatim>\<open>===\<close> to a literal.
\<close>

record stores =
  experimentalGetPreviewDeviceType :: string
  isInserterOpened :: bool
  isListViewOpened :: bool
  getEditorMode :: string
  getShortcutRepresentation :: jsval
  getPreferenceFixedToolbar :: bool

record props =
  blockEditorMode :: string
  isDistractionFree :: bool
  showIconLabels :: bool
  setListViewToggleElement :: jsval
  toolbarTransition :: jsval
  toolbarVariants :: jsval

text \<open>The result of \<^verbatim>\<open>useShouldContextualToolbarShow()\<close>.\<close>

record contextual =
  shouldShowContextualToolbar :: bool
  canFocusHiddenToolbar :: bool
  fixedToolbarCanBeFocused :: bool

text \<open>
  What the component reads besides props and stores: the global \<^verbatim>\<open>window\<close>, the
  result of \<^verbatim>\<open>useViewportMatch('medium')\<close> and the contextual-toolbar hook.
\<close>

record env =
  window :: jsval
  useViewportMatchMedium :: bool
  useShouldContextualToolbarShow :: contextual

text \<open>The object that the callback given to \<^verbatim>\<open>useSelect\<close> returns.\<close>

record selected =
  deviceType :: string
  isInserterOpen :: bool
  isListViewOpen :: bool
  listViewShortcut :: jsval
  isVisualMode :: bool
  hasFixedToolbar :: bool

definition mapSelect :: "stores \<Rightarrow> selected" where
  "mapSelect st =
     \<lparr> deviceType = experimentalGetPreviewDeviceType st,
       isInserterOpen = isInserterOpened st,
       isListViewOpen = isListViewOpened st,
       listViewShortcut = getShortcutRepresentation st,
       isVisualMode = (getEditorMode st = ''visual''),
       hasFixedToolbar = getPreferenceFixedToolbar st \<rparr>"

section \<open>Effects of the event handlers\<close>

datatype element = DomElement nat

text \<open>
  A handler moves the focus or dispatches an action; the list keeps the order of the
  calls. \<^verbatim>\<open>__unstableSetEditorMode\<close> belongs to the block-editor store, the other
  three actions to the edit-site store.
\<close>

datatype effect =
    Focus element
  | SetPreviewDeviceType string
  | SetIsInserterOpened bool
  | SetIsListViewOpened bool
  | UnstableSetEditorMode string

text \<open>
  \<^verbatim>\<open>toggleInserter\<close> reads \<^verbatim>\<open>inserterButton.current\<close> when it runs: the first
  argument is the content of that reference then, \<open>None\<close> for \<^verbatim>\<open>undefined\<close>, on
  which the call of \<^verbatim>\<open>focus\<close> throws.
\<close>

definition toggleInserter :: "element option \<Rightarrow> bool \<Rightarrow> js_error + effect list" where
  "toggleInserter current isOpen =
     (if isOpen then
        (case current of
           None \<Rightarrow> Inl TypeError
         | Some el \<Rightarrow> Inr [Focus el, SetIsInserterOpened False])
      else Inr [SetIsInserterOpened True])"

definition toggleListView :: "bool \<Rightarrow> effect list" where
  "toggleListView isOpen = [SetIsListViewOpened (\<not> isOpen)]"

definition isZoomedOutView :: "string \<Rightarrow> bool" where
  "isZoomedOutView mode = (mode = ''zoom-out'')"

text \<open>The arrow function given as \<^verbatim>\<open>onClick\<close> to the zoom-out toggle.\<close>

definition zoomOutOnClick :: "bool \<Rightarrow> effect list" where
  "zoomOutOnClick zoomedOut =
     [SetPreviewDeviceType ''Desktop'',
      UnstableSetEditorMode (if zoomedOut then ''edit'' else ''zoom-out'')]"

section \<open>The rendered tree\<close>

datatype component = Button | ToolSelector | UndoButton | RedoButton

datatype ref_target = InserterButtonRef | CallbackRef jsval

text \<open>
  The props of a \<^verbatim>\<open>ToolbarItem\<close>; a prop that an item does not set is \<open>None\<close>. A
  handler takes the content of \<^verbatim>\<open>inserterButton.current\<close> at the time of the click.
  The \<^verbatim>\<open>onMouseDown\<close> handler of the inserter toggle only calls
  \<^verbatim>\<open>event.preventDefault()\<close> and is left out.
\<close>

record toolbar_item =
  component :: component
  ref :: "ref_target option"
  className :: "string option"
  variant :: "string option"
  isPressed :: "bool option"
  onClick :: "(element option \<Rightarrow> js_error + effect list) option"
  disabled :: "bool option"
  icon :: "string option"
  label :: "string option"
  shortcut :: "jsval option"
  showTooltip :: "bool option"
  ariaExpanded :: "bool option"

text \<open>
  A JSX child is an element, a fragment of children or, from \<^verbatim>\<open>c && <X/>\<close> with a
  falsy \<^verbatim>\<open>c\<close>, the value \<^verbatim>\<open>c\<close> itself, which renders no element.
\<close>

datatype child = Elem toolbar_item | Frag "child list" | Hole jsval

definition and_child :: "jsval \<Rightarrow> child \<Rightarrow> child" where
  "and_child c ch = (if truthy c then ch else Hole c)"

fun rendered :: "child \<Rightarrow> toolbar_item list" where
  "rendered (Elem it) = [it]"
| "rendered (Frag cs) = concat (map rendered cs)"
| "rendered (Hole v) = []"

text \<open>The \<^verbatim>\<open>NavigableToolbar\<close> with the children of its inner \<^verbatim>\<open>div\<close>.\<close>

record toolbar =
  shouldUseKeyboardFocusShortcut :: bool
  variants :: jsval
  transition :: jsval
  children :: "child list"

definition blockToolbarCanBeFocused :: "contextual \<Rightarrow> bool" where
  "blockToolbarCanBeFocused c =
     (shouldShowContextualToolbar c \<or> canFocusHiddenToolbar c \<or> fixedToolbarCanBeFocused c)"

definition longLabel :: string where
  "longLabel = ''Toggle block inserter''"

definition shortLabel :: "bool \<Rightarrow> string" where
  "shortLabel isOpen = (if \<not> isOpen then ''Add'' else ''Close'')"

definition isZoomedOutViewExperimentEnabled :: "jsval \<Rightarrow> bool \<Rightarrow> js_error + jsval" where
  "isZoomedOutViewExperimentEnabled w visual =
     (case opt_member w ''__experimentalEnableZoomedOutView'' of
        Inl e \<Rightarrow> Inl e
      | Inr flag \<Rightarrow> Inr (js_and flag (JBool visual)))"

definition no_props :: "component \<Rightarrow> toolbar_item" where
  "no_props c =
     \<lparr> component = c, ref = None, className = None, variant = None, isPressed = None,
       onClick = None, disabled = None, icon = None, label = None, shortcut = None,
       showTooltip = None, ariaExpanded = None \<rparr>"

definition inserterItem :: "props \<Rightarrow> selected \<Rightarrow> toolbar_item" where
  "inserterItem p sel =
     (no_props Button)
     \<lparr> ref := Some InserterButtonRef,
       className := Some ''edit-site-header-edit-mode__inserter-toggle'',
       variant := Some ''primary'',
       isPressed := Some (isInserterOpen sel),
       onClick := Some (\<lambda>current. toggleInserter current (isInserterOpen sel)),
       disabled := Some (\<not> isVisualMode sel),
       icon := Some ''plus'',
       label := Some (if showIconLabels p then shortLabel (isInserterOpen sel) else longLabel),
       showTooltip := Some (\<not> showIconLabels p),
       ariaExpanded := Some (isInserterOpen sel) \<rparr>"

definition toolSelectorItem :: "props \<Rightarrow> selected \<Rightarrow> toolbar_item" where
  "toolSelectorItem p sel =
     (no_props ToolSelector)
     \<lparr> showTooltip := Some (\<not> showIconLabels p),
       variant := (if showIconLabels p then Some ''tertiary'' else None),
       disabled := Some (\<not> isVisualMode sel) \<rparr>"

definition undoItem :: "props \<Rightarrow> toolbar_item" where
  "undoItem p =
     (no_props UndoButton)
     \<lparr> showTooltip := Some (\<not> showIconLabels p),
       variant := (if showIconLabels p then Some ''tertiary'' else None) \<rparr>"

definition redoItem :: "props \<Rightarrow> toolbar_item" where
  "redoItem p =
     (no_props RedoButton)
     \<lparr> showTooltip := Some (\<not> showIconLabels p),
       variant := (if showIconLabels p then Some ''tertiary'' else None) \<rparr>"

definition listViewItem :: "props \<Rightarrow> selected \<Rightarrow> toolbar_item" where
  "listViewItem p sel =
     (no_props Button)
     \<lparr> className := Some ''edit-site-header-edit-mode__list-view-toggle'',
       disabled := Some (\<not> isVisualMode sel \<or> isZoomedOutView (blockEditorMode p)),
       icon := Some ''listView'',
       isPressed := Some (isListViewOpen sel),
       label := Some ''List View'',
       onClick := Some (\<lambda>current. Inr (toggleListView (isListViewOpen sel))),
       ref := Some (CallbackRef (setListViewToggleElement p)),
       shortcut := Some (listViewShortcut sel),
       showTooltip := Some (\<not> showIconLabels p),
       variant := (if showIconLabels p then Some ''tertiary'' else None),
       ariaExpanded := Some (isListViewOpen sel) \<rparr>"

definition zoomOutItem :: "props \<Rightarrow> toolbar_item" where
  "zoomOutItem p =
     (no_props Button)
     \<lparr> className := Some ''edit-site-header-edit-mode__zoom-out-view-toggle'',
       icon := Some ''chevronUpDown'',
       isPressed := Some (isZoomedOutView (blockEditorMode p)),
       label := Some ''Zoom-out View'',
       onClick := Some (\<lambda>current. Inr (zoomOutOnClick (isZoomedOutView (blockEditorMode p)))) \<rparr>"

definition DocumentTools :: "props \<Rightarrow> stores \<Rightarrow> env \<Rightarrow> js_error + toolbar" where
  "DocumentTools p st e =
     (let sel = mapSelect st in
      case isZoomedOutViewExperimentEnabled (window e) (isVisualMode sel) of
        Inl err \<Rightarrow> Inl err
      | Inr experiment \<Rightarrow>
          Inr \<lparr> shouldUseKeyboardFocusShortcut =
                  (\<not> blockToolbarCanBeFocused (useShouldContextualToolbarShow e)),
                variants = toolbarVariants p,
                transition = toolbarTransition p,
                children =
                  [ and_child (JBool (\<not> isDistractionFree p)) (Elem (inserterItem p sel)),
                    and_child (JBool (useViewportMatchMedium e))
                      (Frag
                        [ and_child (JBool (\<not> hasFixedToolbar sel))
                            (Elem (toolSelectorItem p sel)),
                          Elem (undoItem p),
                          Elem (redoItem p),
                          and_child (JBool (\<not> isDistractionFree p))
                            (Elem (listViewItem p sel)),
                          and_child
                            (js_and
                              (js_and experiment (JBool (\<not> isDistractionFree p)))
                              (JBool (\<not> hasFixedToolbar sel)))
                            (Elem (zoomOutItem p)) ]) ] \<rparr>)"

section \<open>The component in a global scope\<close>

text \<open>
  \<^verbatim>\<open>window?.__experimentalEnableZoomedOutView && isVisualMode\<close> with the lookup of
  the identifier \<^verbatim>\<open>window\<close>: the optional chaining applies to the value that the
  lookup returns, and does not catch the error of a failed lookup.
\<close>

definition isZoomedOutViewExperimentEnabled_in_scope ::
  "scope \<Rightarrow> bool \<Rightarrow> js_error + jsval" where
  "isZoomedOutViewExperimentEnabled_in_scope sc visual =
     (case resolve_identifier sc ''window'' of
        Inl err \<Rightarrow> Inl err
      | Inr w \<Rightarrow> isZoomedOutViewExperimentEnabled w visual)"

text \<open>
  The component in a scope, with the results of \<^verbatim>\<open>useViewportMatch('medium')\<close> and
  \<^verbatim>\<open>useShouldContextualToolbarShow()\<close>. The hooks that run before line 124 have no
  effect on the result, so a failed lookup of \<^verbatim>\<open>window\<close> is the result of the render.
\<close>

definition DocumentTools_in_scope ::
  "scope \<Rightarrow> props \<Rightarrow> stores \<Rightarrow> bool \<Rightarrow> contextual \<Rightarrow> js_error + toolbar" where
  "DocumentTools_in_scope sc p st isLargeViewport ctx =
     (case resolve_identifier sc ''window'' of
        Inl err \<Rightarrow> Inl err
      | Inr w \<Rightarrow>
          DocumentTools p st
            \<lparr> window = w, useViewportMatchMedium = isLargeViewport,
              useShouldContextualToolbarShow = ctx \<rparr>)"

section \<open>Reading the rendered tree\<close>

definition items :: "toolbar \<Rightarrow> toolbar_item list" where
  "items t = concat (map rendered (children t))"

text \<open>The six controls, told apart by the component or the class name they are given.\<close>

definition is_inserter_toggle :: "toolbar_item \<Rightarrow> bool" where
  "is_inserter_toggle it =
     (className it = Some ''edit-site-header-edit-mode__inserter-toggle'')"

definition is_tool_selector :: "toolbar_item \<Rightarrow> bool" where
  "is_tool_selector it = (component it = ToolSelector)"

definition is_undo :: "toolbar_item \<Rightarrow> bool" where
  "is_undo it = (component it = UndoButton)"

definition is_redo :: "toolbar_item \<Rightarrow> bool" where
  "is_redo it = (component it = RedoButton)"

definition is_list_view_toggle :: "toolbar_item \<Rightarrow> bool" where
  "is_list_view_toggle it =
     (className it = Some ''edit-site-header-edit-mode__list-view-toggle'')"

definition is_zoom_out_toggle :: "toolbar_item \<Rightarrow> bool" where
  "is_zoom_out_toggle it =
     (className it = Some ''edit-site-header-edit-mode__zoom-out-view-toggle'')"

text \<open>A control is present when the render returns a tree that holds it.\<close>

definition renders :: "(toolbar_item \<Rightarrow> bool) \<Rightarrow> js_error + toolbar \<Rightarrow> bool" where
  "renders P r = (case r of Inl err \<Rightarrow> False | Inr t \<Rightarrow> list_ex P (items t))"

text \<open>The controls of a kind that a render holds, none when it throws.\<close>

definition found :: "(toolbar_item \<Rightarrow> bool) \<Rightarrow> js_error + toolbar \<Rightarrow> toolbar_item list" where
  "found P r = (case r of Inl err \<Rightarrow> [] | Inr t \<Rightarrow> filter P (items t))"

text \<open>Calling the \<^verbatim>\<open>onClick\<close> of an item; an item without one does nothing.\<close>

definition click :: "toolbar_item \<Rightarrow> element option \<Rightarrow> js_error + effect list" where
  "click it current = (case onClick it of None \<Rightarrow> Inr [] | Some h \<Rightarrow> h current)"

section \<open>The store actions\<close>

text \<open>
  Modelled from the spec: the reducers of the edit-site store are not in this file. The
  spec lists the actions \<^verbatim>\<open>set-inserter-opened(bool)\<close>,
  \<^verbatim>\<open>set-list-view-opened(bool)\<close> and \<^verbatim>\<open>set-preview-device-type(enum)\<close> as the
  writers of the values that the selectors \<^verbatim>\<open>inserter-opened?\<close>,
  \<^verbatim>\<open>list-view-opened?\<close> and \<^verbatim>\<open>preview-device-type\<close> read. Moving the focus and
  setting the mode of the block editor do not write to this snapshot.
\<close>

fun dispatch :: "effect \<Rightarrow> stores \<Rightarrow> stores" where
  "dispatch (SetIsInserterOpened v) st = st\<lparr>isInserterOpened := v\<rparr>"
| "dispatch (SetIsListViewOpened v) st = st\<lparr>isListViewOpened := v\<rparr>"
| "dispatch (SetPreviewDeviceType d) st = st\<lparr>experimentalGetPreviewDeviceType := d\<rparr>"
| "dispatch (Focus el) st = st"
| "dispatch (UnstableSetEditorMode m) st = st"

text \<open>
  One use of a toggle: the handler of the current render, which has read the snapshot,
  runs, and its dispatches are applied in order.
\<close>

definition toggleInserterOnce :: "element option \<Rightarrow> stores \<Rightarrow> js_error + stores" where
  "toggleInserterOnce current st =
     (case toggleInserter current (isInserterOpen (mapSelect st)) of
        Inl err \<Rightarrow> Inl err
      | Inr effs \<Rightarrow> Inr (fold dispatch effs st))"

definition toggleInserterTwice :: "element option \<Rightarrow> stores \<Rightarrow> js_error + stores" where
  "toggleInserterTwice current st =
     (case toggleInserterOnce current st of
        Inl err \<Rightarrow> Inl err
      | Inr st' \<Rightarrow> toggleInserterOnce current st')"

definition toggleListViewOnce :: "stores \<Rightarrow> stores" where
  "toggleListViewOnce st = fold dispatch (toggleListView (isListViewOpen (mapSelect st))) st"

section \<open>Sample inputs\<close>

text \<open>
  A visual-mode editor on a large viewport with the zoom-out experiment switched on:
  all six controls render.
\<close>

definition example_props :: props where
  "example_props =
     \<lparr> blockEditorMode = ''edit'', isDistractionFree = False, showIconLabels = False,
       setListViewToggleElement = JObj [], toolbarTransition = JObj [],
       toolbarVariants = JObj [] \<rparr>"

definition example_stores :: stores where
  "example_stores =
     \<lparr> experimentalGetPreviewDeviceType = ''Desktop'', isInserterOpened = False,
       isListViewOpened = False, getEditorMode = ''visual'',
       getShortcutRepresentation = JStr ''Shift+Alt+O'',
       getPreferenceFixedToolbar = False \<rparr>"

definition example_env :: env where
  "example_env =
     \<lparr> window = JObj [(''__experimentalEnableZoomedOutView'', JBool True)],
       useViewportMatchMedium = True,
       useShouldContextualToolbarShow =
         \<lparr> shouldShowContextualToolbar = False, canFocusHiddenToolbar = False,
           fixedToolbarCanBeFocused = False \<rparr> \<rparr>"

section \<open>What a render holds\<close>

lemma opt_member_eq: "opt_member w k = Inr (own_property w k)"
  by (cases w) (simp_all add: opt_member_def get_member_def)

lemma experiment_eq:
  "isZoomedOutViewExperimentEnabled w v =
     Inr (js_and (own_property w ''__experimentalEnableZoomedOutView'') (JBool v))"
  by (simp add: isZoomedOutViewExperimentEnabled_def opt_member_eq)

text \<open>The render never throws, and its items in document order are these.\<close>

lemma DocumentTools_items:
  "\<exists>t. DocumentTools p st e = Inr t \<and>
     shouldUseKeyboardFocusShortcut t =
       (\<not> blockToolbarCanBeFocused (useShouldContextualToolbarShow e)) \<and>
     items t =
     (if isDistractionFree p then [] else [inserterItem p (mapSelect st)]) @
     (if useViewportMatchMedium e then
        (if getPreferenceFixedToolbar st then [] else [toolSelectorItem p (mapSelect st)]) @
        [undoItem p, redoItem p] @
        (if isDistractionFree p then [] else [listViewItem p (mapSelect st)]) @
        (if truthy (own_property (window e) ''__experimentalEnableZoomedOutView'') \<and>
            getEditorMode st = ''visual'' \<and> \<not> isDistractionFree p \<and>
            \<not> getPreferenceFixedToolbar st
         then [zoomOutItem p] else [])
      else [])"
  by (auto simp add: DocumentTools_def experiment_eq Let_def items_def and_child_def
      js_and_def mapSelect_def)

lemmas item_defs =
  inserterItem_def toolSelectorItem_def undoItem_def redoItem_def listViewItem_def
  zoomOutItem_def no_props_def

lemma zoom_out_kinds:
  "is_zoom_out_toggle (zoomOutItem p)" "\<not> is_zoom_out_toggle (inserterItem p s)"
  "\<not> is_zoom_out_toggle (toolSelectorItem p s)" "\<not> is_zoom_out_toggle (undoItem p)"
  "\<not> is_zoom_out_toggle (redoItem p)" "\<not> is_zoom_out_toggle (listViewItem p s)"
  by (simp_all add: is_zoom_out_toggle_def item_defs)

lemma list_view_kinds:
  "\<not> is_list_view_toggle (zoomOutItem p)" "\<not> is_list_view_toggle (inserterItem p s)"
  "\<not> is_list_view_toggle (toolSelectorItem p s)" "\<not> is_list_view_toggle (undoItem p)"
  "\<not> is_list_view_toggle (redoItem p)" "is_list_view_toggle (listViewItem p s)"
  by (simp_all add: is_list_view_toggle_def item_defs)

lemma inserter_kinds:
  "\<not> is_inserter_toggle (zoomOutItem p)" "is_inserter_toggle (inserterItem p s)"
  "\<not> is_inserter_toggle (toolSelectorItem p s)" "\<not> is_inserter_toggle (undoItem p)"
  "\<not> is_inserter_toggle (redoItem p)" "\<not> is_inserter_toggle (listViewItem p s)"
  by (simp_all add: is_inserter_toggle_def item_defs)

lemma tool_selector_kinds:
  "\<not> is_tool_selector (zoomOutItem p)" "\<not> is_tool_selector (inserterItem p s)"
  "is_tool_selector (toolSelectorItem p s)" "\<not> is_tool_selector (undoItem p)"
  "\<not> is_tool_selector (redoItem p)" "\<not> is_tool_selector (listViewItem p s)"
  by (simp_all add: is_tool_selector_def item_defs)

lemma undo_kinds:
  "\<not> is_undo (zoomOutItem p)" "\<not> is_undo (inserterItem p s)"
  "\<not> is_undo (toolSelectorItem p s)" "is_undo (undoItem p)"
  "\<not> is_undo (redoItem p)" "\<not> is_undo (listViewItem p s)"
  by (simp_all add: is_undo_def item_defs)

lemma redo_kinds:
  "\<not> is_redo (zoomOutItem p)" "\<not> is_redo (inserterItem p s)"
  "\<not> is_redo (toolSelectorItem p s)" "\<not> is_redo (undoItem p)"
  "is_redo (redoItem p)" "\<not> is_redo (listViewItem p s)"
  by (simp_all add: is_redo_def item_defs)

lemmas example_defs = example_props_def example_stores_def example_env_def

text \<open>Which controls of each kind a render holds.\<close>

lemma found_zoom_out_toggle:
  "found is_zoom_out_toggle (DocumentTools p st e) =
     (if useViewportMatchMedium e \<and>
         truthy (own_property (window e) ''__experimentalEnableZoomedOutView'') \<and>
         getEditorMode st = ''visual'' \<and> \<not> isDistractionFree p \<and>
         \<not> getPreferenceFixedToolbar st
      then [zoomOutItem p] else [])"
  using DocumentTools_items [of p st e] by (auto simp add: found_def zoom_out_kinds)

lemma found_list_view_toggle:
  "found is_list_view_toggle (DocumentTools p st e) =
     (if useViewportMatchMedium e \<and> \<not> isDistractionFree p
      then [listViewItem p (mapSelect st)] else [])"
  using DocumentTools_items [of p st e] by (auto simp add: found_def list_view_kinds)

lemma found_inserter_toggle:
  "found is_inserter_toggle (DocumentTools p st e) =
     (if isDistractionFree p then [] else [inserterItem p (mapSelect st)])"
  using DocumentTools_items [of p st e] by (auto simp add: found_def inserter_kinds)

lemma found_tool_selector:
  "found is_tool_selector (DocumentTools p st e) =
     (if useViewportMatchMedium e \<and> \<not> getPreferenceFixedToolbar st
      then [toolSelectorItem p (mapSelect st)] else [])"
  using DocumentTools_items [of p st e] by (auto simp add: found_def tool_selector_kinds)

lemma found_undo:
  "found is_undo (DocumentTools p st e) =
     (if useViewportMatchMedium e then [undoItem p] else [])"
  using DocumentTools_items [of p st e] by (auto simp add: found_def undo_kinds)

lemma found_redo:
  "found is_redo (DocumentTools p st e) =
     (if useViewportMatchMedium e then [redoItem p] else [])"
  using DocumentTools_items [of p st e] by (auto simp add: found_def redo_kinds)

lemma renders_found: "renders P r \<longleftrightarrow> found P r \<noteq> []"
  by (cases r) (simp_all add: renders_def found_def list_ex_iff filter_empty_conv)

text \<open>The handler of the inserter toggle is \<^verbatim>\<open>toggleInserter\<close> of the current render.\<close>

lemma inserter_click:
  "map (\<lambda>it. click it current) (found is_inserter_toggle (DocumentTools p st e)) =
     (if isDistractionFree p then [] else [toggleInserter current (isInserterOpened st)])"
  by (simp add: found_inserter_toggle click_def inserterItem_def no_props_def mapSelect_def)

lemma list_view_click:
  "map (\<lambda>it. click it current) (found is_list_view_toggle (DocumentTools p st e)) =
     (if useViewportMatchMedium e \<and> \<not> isDistractionFree p
      then [Inr (toggleListView (isListViewOpened st))] else [])"
  by (simp add: found_list_view_toggle click_def listViewItem_def no_props_def mapSelect_def)

section \<open>The claims\<close>

text \<open>
  C1. The zoom-out toggle is in the render output if and only if the viewport is large,
  the global flag \<^verbatim>\<open>__experimentalEnableZoomedOutView\<close> of \<^verbatim>\<open>window\<close> is truthy,
  the editor mode of the edit-site store is \<^verbatim>\<open>'visual'\<close>, distraction-free mode is
  off and the fixed-toolbar preference is off. The editor mode is the fifth condition:
  \<^verbatim>\<open>isZoomedOutViewExperimentEnabled\<close> is the flag \<^verbatim>\<open>&& isVisualMode\<close>. With the
  other four conditions alone the toggle is absent in code mode.
\<close>

theorem zoom_out_toggle_renders_iff:
  "renders is_zoom_out_toggle (DocumentTools p st e) \<longleftrightarrow>
     useViewportMatchMedium e \<and>
     truthy (own_property (window e) ''__experimentalEnableZoomedOutView'') \<and>
     getEditorMode st = ''visual'' \<and>
     \<not> isDistractionFree p \<and>
     \<not> getPreferenceFixedToolbar st"
  by (simp add: renders_found found_zoom_out_toggle)

theorem zoom_out_toggle_renders_iff_witness:
  "renders is_zoom_out_toggle (DocumentTools example_props example_stores example_env)"
  using zoom_out_toggle_renders_iff [of example_props example_stores example_env]
  by (simp add: example_defs)

theorem zoom_out_toggle_four_flags_counterexample:
  "useViewportMatchMedium example_env \<and>
   truthy (own_property (window example_env) ''__experimentalEnableZoomedOutView'') \<and>
   \<not> isDistractionFree example_props \<and>
   \<not> getPreferenceFixedToolbar (example_stores\<lparr>getEditorMode := ''code''\<rparr>) \<and>
   \<not> renders is_zoom_out_toggle
       (DocumentTools example_props (example_stores\<lparr>getEditorMode := ''code''\<rparr>) example_env)"
  by (simp add: renders_def items_def DocumentTools_def isZoomedOutViewExperimentEnabled_def
      opt_member_def get_member_def js_and_def and_child_def mapSelect_def Let_def
      example_defs zoom_out_kinds)

text \<open>
  C2. Whatever the mode of the block editor, a click on the rendered zoom-out toggle
  first dispatches \<^verbatim>\<open>__experimentalSetPreviewDeviceType('Desktop')\<close> and then
  \<^verbatim>\<open>__unstableSetEditorMode\<close> with \<^verbatim>\<open>'edit'\<close> when the mode is \<^verbatim>\<open>'zoom-out'\<close>
  and with \<^verbatim>\<open>'zoom-out'\<close> otherwise.
\<close>

theorem zoom_out_click_dispatches:
  assumes "it \<in> set (found is_zoom_out_toggle (DocumentTools p st e))"
  shows "click it current =
     Inr [SetPreviewDeviceType ''Desktop'',
          UnstableSetEditorMode
            (if blockEditorMode p = ''zoom-out'' then ''edit'' else ''zoom-out'')]"
proof -
  from assms have "it = zoomOutItem p"
    by (simp add: found_zoom_out_toggle split: if_splits)
  then show ?thesis
    by (simp add: click_def zoomOutItem_def no_props_def zoomOutOnClick_def
        isZoomedOutView_def)
qed

theorem zoom_out_click_dispatches_witness:
  "click (zoomOutItem example_props) None =
     Inr [SetPreviewDeviceType ''Desktop'', UnstableSetEditorMode ''zoom-out''] \<and>
   click (zoomOutItem (example_props\<lparr>blockEditorMode := ''zoom-out''\<rparr>)) None =
     Inr [SetPreviewDeviceType ''Desktop'', UnstableSetEditorMode ''edit'']"
proof -
  have a: "zoomOutItem example_props \<in>
      set (found is_zoom_out_toggle (DocumentTools example_props example_stores example_env))"
    by (simp add: found_zoom_out_toggle example_defs)
  have b: "zoomOutItem (example_props\<lparr>blockEditorMode := ''zoom-out''\<rparr>) \<in>
      set (found is_zoom_out_toggle
        (DocumentTools (example_props\<lparr>blockEditorMode := ''zoom-out''\<rparr>)
           example_stores example_env))"
    by (simp add: found_zoom_out_toggle example_defs)
  show ?thesis
    using zoom_out_click_dispatches [OF a, of None] zoom_out_click_dispatches [OF b, of None]
    by (simp add: example_defs)
qed

text \<open>
  C3. \<^verbatim>\<open>toggleInserter\<close> on a closed inserter only dispatches
  \<^verbatim>\<open>setIsInserterOpened(true)\<close>, with no focus move, and the inserter is open
  afterwards. On an open inserter, with the inserter button mounted, it moves the focus to
  the button once and then dispatches \<^verbatim>\<open>setIsInserterOpened(false)\<close>, and the
  inserter is closed afterwards. Toggling twice, the second handler being the one of the
  render after the first dispatch, gives the inserter-open flag its first value back.
\<close>

theorem toggleInserter_effects:
  "toggleInserter current False = Inr [SetIsInserterOpened True] \<and>
   toggleInserter (Some el) True = Inr [Focus el, SetIsInserterOpened False] \<and>
   toggleInserterOnce current (st\<lparr>isInserterOpened := False\<rparr>) =
     Inr (st\<lparr>isInserterOpened := True\<rparr>) \<and>
   toggleInserterOnce (Some el) (st\<lparr>isInserterOpened := True\<rparr>) =
     Inr (st\<lparr>isInserterOpened := False\<rparr>) \<and>
   map_sum id isInserterOpened (toggleInserterTwice (Some el) st) =
     Inr (isInserterOpened st)"
  by (simp add: toggleInserter_def toggleInserterOnce_def toggleInserterTwice_def
      mapSelect_def)

theorem toggleInserter_effects_witness:
  "toggleInserter None False = Inr [SetIsInserterOpened True] \<and>
   toggleInserter (Some (DomElement 0)) True =
     Inr [Focus (DomElement 0), SetIsInserterOpened False] \<and>
   map_sum id isInserterOpened (toggleInserterTwice (Some (DomElement 0)) example_stores) =
     Inr False"
  using toggleInserter_effects [of None "DomElement 0" example_stores]
  by (simp add: example_defs)

text \<open>
  C4. When \<^verbatim>\<open>isDistractionFree\<close> is true the inserter toggle, the list-view toggle
  and the zoom-out toggle are absent from the render output, whatever the other inputs.
\<close>

theorem distraction_free_hides_toggles:
  assumes "isDistractionFree p"
  shows "\<not> renders is_inserter_toggle (DocumentTools p st e) \<and>
         \<not> renders is_list_view_toggle (DocumentTools p st e) \<and>
         \<not> renders is_zoom_out_toggle (DocumentTools p st e)"
  using assms
  by (simp add: renders_found found_inserter_toggle found_list_view_toggle
      found_zoom_out_toggle)

theorem distraction_free_hides_toggles_witness:
  "isDistractionFree (example_props\<lparr>isDistractionFree := True\<rparr>) \<and>
   \<not> renders is_inserter_toggle
       (DocumentTools (example_props\<lparr>isDistractionFree := True\<rparr>) example_stores example_env) \<and>
   \<not> renders is_list_view_toggle
       (DocumentTools (example_props\<lparr>isDistractionFree := True\<rparr>) example_stores example_env) \<and>
   \<not> renders is_zoom_out_toggle
       (DocumentTools (example_props\<lparr>isDistractionFree := True\<rparr>) example_stores example_env)"
proof -
  have h: "isDistractionFree (example_props\<lparr>isDistractionFree := True\<rparr>)" by simp
  show ?thesis
    using h distraction_free_hides_toggles [OF h, of example_stores example_env] by simp
qed

text \<open>
  C5. When the viewport is not large the tool selector, undo, redo, the list-view toggle
  and the zoom-out toggle are all absent, whatever the other inputs. When it is large,
  undo and redo are present, whatever the editor mode, the distraction-free flag and the
  fixed-toolbar preference.
\<close>

theorem viewport_gates_controls:
  "(\<not> useViewportMatchMedium e \<longrightarrow>
      \<not> renders is_tool_selector (DocumentTools p st e) \<and>
      \<not> renders is_undo (DocumentTools p st e) \<and>
      \<not> renders is_redo (DocumentTools p st e) \<and>
      \<not> renders is_list_view_toggle (DocumentTools p st e) \<and>
      \<not> renders is_zoom_out_toggle (DocumentTools p st e)) \<and>
   (useViewportMatchMedium e \<longrightarrow>
      renders is_undo (DocumentTools p st e) \<and>
      renders is_redo (DocumentTools p st e))"
  by (simp add: renders_found found_tool_selector found_undo found_redo
      found_list_view_toggle found_zoom_out_toggle)

theorem viewport_gates_controls_witness:
  "\<not> useViewportMatchMedium (example_env\<lparr>useViewportMatchMedium := False\<rparr>) \<and>
   \<not> renders is_tool_selector
       (DocumentTools example_props example_stores
          (example_env\<lparr>useViewportMatchMedium := False\<rparr>)) \<and>
   \<not> renders is_undo
       (DocumentTools example_props example_stores
          (example_env\<lparr>useViewportMatchMedium := False\<rparr>)) \<and>
   \<not> renders is_redo
       (DocumentTools example_props example_stores
          (example_env\<lparr>useViewportMatchMedium := False\<rparr>)) \<and>
   \<not> renders is_list_view_toggle
       (DocumentTools example_props example_stores
          (example_env\<lparr>useViewportMatchMedium := False\<rparr>)) \<and>
   \<not> renders is_zoom_out_toggle
       (DocumentTools example_props example_stores
          (example_env\<lparr>useViewportMatchMedium := False\<rparr>)) \<and>
   useViewportMatchMedium example_env \<and>
   renders is_undo
     (DocumentTools (example_props\<lparr>isDistractionFree := True\<rparr>)
        (example_stores\<lparr>getEditorMode := ''code'', getPreferenceFixedToolbar := True\<rparr>)
        example_env) \<and>
   renders is_redo
     (DocumentTools (example_props\<lparr>isDistractionFree := True\<rparr>)
        (example_stores\<lparr>getEditorMode := ''code'', getPreferenceFixedToolbar := True\<rparr>)
        example_env)"
proof -
  have small: "\<not> useViewportMatchMedium (example_env\<lparr>useViewportMatchMedium := False\<rparr>)"
    by simp
  have large: "useViewportMatchMedium example_env"
    by (simp add: example_env_def)
  show ?thesis
    using small large
      viewport_gates_controls [of "example_env\<lparr>useViewportMatchMedium := False\<rparr>"
        example_props example_stores]
      viewport_gates_controls [of example_env "example_props\<lparr>isDistractionFree := True\<rparr>"
        "example_stores\<lparr>getEditorMode := ''code'', getPreferenceFixedToolbar := True\<rparr>"]
    by simp
qed

text \<open>
  C6. A rendered list-view toggle is disabled exactly when the editor mode is not
  \<^verbatim>\<open>'visual'\<close> or the block-editor mode is \<^verbatim>\<open>'zoom-out'\<close>, and its
  \<^verbatim>\<open>aria-expanded\<close> is the value of \<^verbatim>\<open>isListViewOpened()\<close>.
\<close>

theorem list_view_toggle_disabled:
  assumes "it \<in> set (found is_list_view_toggle (DocumentTools p st e))"
  shows "disabled it =
           Some (getEditorMode st \<noteq> ''visual'' \<or> blockEditorMode p = ''zoom-out'') \<and>
         ariaExpanded it = Some (isListViewOpened st)"
proof -
  from assms have "it = listViewItem p (mapSelect st)"
    by (simp add: found_list_view_toggle split: if_splits)
  then show ?thesis
    by (simp add: listViewItem_def no_props_def mapSelect_def isZoomedOutView_def)
qed

theorem list_view_toggle_disabled_witness:
  "disabled (listViewItem example_props (mapSelect example_stores)) = Some False \<and>
   disabled (listViewItem (example_props\<lparr>blockEditorMode := ''zoom-out''\<rparr>)
     (mapSelect example_stores)) = Some True \<and>
   disabled (listViewItem example_props
     (mapSelect (example_stores\<lparr>getEditorMode := ''code''\<rparr>))) = Some True \<and>
   disabled (listViewItem (example_props\<lparr>blockEditorMode := ''zoom-out''\<rparr>)
     (mapSelect (example_stores\<lparr>getEditorMode := ''code''\<rparr>))) = Some True \<and>
   ariaExpanded (listViewItem example_props
     (mapSelect (example_stores\<lparr>isListViewOpened := True\<rparr>))) = Some True \<and>
   ariaExpanded (listViewItem example_props (mapSelect example_stores)) = Some False"
proof -
  have m: "listViewItem p (mapSelect st) \<in>
      set (found is_list_view_toggle (DocumentTools p st example_env))"
    if "\<not> isDistractionFree p" for p st
    using that by (simp add: found_list_view_toggle example_env_def)
  have p1: "\<not> isDistractionFree example_props"
    by (simp add: example_props_def)
  have p2: "\<not> isDistractionFree (example_props\<lparr>blockEditorMode := ''zoom-out''\<rparr>)"
    by (simp add: example_props_def)
  show ?thesis
    using list_view_toggle_disabled [OF m [OF p1, of example_stores]]
      list_view_toggle_disabled [OF m [OF p2, of example_stores]]
      list_view_toggle_disabled [OF m [OF p1, of "example_stores\<lparr>getEditorMode := ''code''\<rparr>"]]
      list_view_toggle_disabled [OF m [OF p2, of "example_stores\<lparr>getEditorMode := ''code''\<rparr>"]]
      list_view_toggle_disabled [OF m [OF p1, of "example_stores\<lparr>isListViewOpened := True\<rparr>"]]
    by (simp add: example_props_def example_stores_def)
qed

text \<open>
  C7. \<^verbatim>\<open>toggleListView\<close> dispatches \<^verbatim>\<open>setIsListViewOpened\<close> with the negation of
  the current \<^verbatim>\<open>isListViewOpen\<close> and does nothing else; one toggle flips the
  list-view flag of the snapshot and changes nothing else, and two toggles in a row give
  the snapshot back.
\<close>

theorem toggleListView_flip:
  "toggleListView x = [SetIsListViewOpened (\<not> x)] \<and>
   toggleListViewOnce st = st\<lparr>isListViewOpened := \<not> isListViewOpened st\<rparr> \<and>
   isListViewOpened (toggleListViewOnce (toggleListViewOnce st)) = isListViewOpened st \<and>
   toggleListViewOnce (toggleListViewOnce st) = st"
  by (simp add: toggleListView_def toggleListViewOnce_def mapSelect_def)

theorem toggleListView_flip_witness:
  "toggleListView True = [SetIsListViewOpened False] \<and>
   toggleListView False = [SetIsListViewOpened True] \<and>
   toggleListViewOnce example_stores = example_stores\<lparr>isListViewOpened := True\<rparr> \<and>
   toggleListViewOnce (toggleListViewOnce example_stores) = example_stores"
  using toggleListView_flip [of True example_stores] toggleListView_flip [of False example_stores]
  by (simp add: example_stores_def)

text \<open>
  C8. The render never throws, and \<^verbatim>\<open>shouldUseKeyboardFocusShortcut\<close> of the toolbar
  is true exactly when \<^verbatim>\<open>shouldShowContextualToolbar\<close>, \<^verbatim>\<open>canFocusHiddenToolbar\<close>
  and \<^verbatim>\<open>fixedToolbarCanBeFocused\<close> are all false.
\<close>

theorem keyboard_focus_shortcut_iff:
  "map_sum id shouldUseKeyboardFocusShortcut (DocumentTools p st e) =
     Inr (\<not> shouldShowContextualToolbar (useShouldContextualToolbarShow e) \<and>
          \<not> canFocusHiddenToolbar (useShouldContextualToolbarShow e) \<and>
          \<not> fixedToolbarCanBeFocused (useShouldContextualToolbarShow e))"
  using DocumentTools_items [of p st e]
  by (auto simp add: blockToolbarCanBeFocused_def)

theorem keyboard_focus_shortcut_iff_witness:
  "map_sum id shouldUseKeyboardFocusShortcut
     (DocumentTools example_props example_stores example_env) = Inr True \<and>
   map_sum id shouldUseKeyboardFocusShortcut
     (DocumentTools example_props example_stores
        (example_env\<lparr>useShouldContextualToolbarShow :=
           \<lparr> shouldShowContextualToolbar = False, canFocusHiddenToolbar = True,
             fixedToolbarCanBeFocused = False \<rparr>\<rparr>)) = Inr False"
  using keyboard_focus_shortcut_iff [of example_props example_stores example_env]
    keyboard_focus_shortcut_iff [of example_props example_stores
      "example_env\<lparr>useShouldContextualToolbarShow :=
           \<lparr> shouldShowContextualToolbar = False, canFocusHiddenToolbar = True,
             fixedToolbarCanBeFocused = False \<rparr>\<rparr>"]
  by (simp add: example_env_def)

lemma plain_member_access_throws:
  "get_member JUndefined k = Inl TypeError" "get_member JNull k = Inl TypeError"
  by (simp_all add: get_member_def)

text \<open>
  C9. When the scope declares \<^verbatim>\<open>window\<close> and its value is \<^verbatim>\<open>undefined\<close> or
  \<^verbatim>\<open>null\<close>, or is an object on which \<^verbatim>\<open>__experimentalEnableZoomedOutView\<close> is
  missing or \<^verbatim>\<open>undefined\<close>, the experiment flag evaluates to a falsy value without an
  error, the render returns a tree, and the zoom-out toggle is not in it. A plain member
  access on such a value would throw; the optional chaining of the source does not. When
  the scope does not declare \<^verbatim>\<open>window\<close> at all, the lookup of line 124 raises a
  ReferenceError and the render returns no tree.
\<close>

theorem absent_experiment_flag:
  assumes "sc ''window'' = Some w"
    and "w = JUndefined \<or> w = JNull \<or>
     (\<exists>ps. w = JObj ps \<and>
        (map_of ps ''__experimentalEnableZoomedOutView'' = None \<or>
         map_of ps ''__experimentalEnableZoomedOutView'' = Some JUndefined))"
  shows "(\<exists>v. isZoomedOutViewExperimentEnabled_in_scope sc (isVisualMode (mapSelect st)) = Inr v \<and>
              \<not> truthy v) \<and>
         (\<exists>t. DocumentTools_in_scope sc p st isLargeViewport ctx = Inr t) \<and>
         \<not> renders is_zoom_out_toggle (DocumentTools_in_scope sc p st isLargeViewport ctx)"
proof -
  let ?e = "\<lparr> window = w, useViewportMatchMedium = isLargeViewport,
              useShouldContextualToolbarShow = ctx \<rparr>"
  from assms(2) have u: "own_property w ''__experimentalEnableZoomedOutView'' = JUndefined"
    by auto
  have r: "resolve_identifier sc ''window'' = Inr w"
    by (simp add: resolve_identifier_def assms(1))
  have "isZoomedOutViewExperimentEnabled_in_scope sc (isVisualMode (mapSelect st)) =
      Inr JUndefined"
    by (simp add: isZoomedOutViewExperimentEnabled_in_scope_def r experiment_eq u js_and_def)
  moreover have d: "DocumentTools_in_scope sc p st isLargeViewport ctx = DocumentTools p st ?e"
    by (simp add: DocumentTools_in_scope_def r)
  moreover have "\<exists>t. DocumentTools p st ?e = Inr t"
    using DocumentTools_items [of p st ?e] by blast
  moreover have "\<not> renders is_zoom_out_toggle (DocumentTools p st ?e)"
    by (simp add: renders_found found_zoom_out_toggle u)
  ultimately show ?thesis by simp
qed

theorem absent_experiment_flag_witness:
  "(\<exists>t. DocumentTools_in_scope [''window'' \<mapsto> JUndefined] example_props example_stores
      True (useShouldContextualToolbarShow example_env) = Inr t) \<and>
   \<not> renders is_zoom_out_toggle
       (DocumentTools_in_scope [''window'' \<mapsto> JUndefined] example_props example_stores
          True (useShouldContextualToolbarShow example_env)) \<and>
   (\<exists>t. DocumentTools_in_scope [''window'' \<mapsto> JNull] example_props example_stores
      True (useShouldContextualToolbarShow example_env) = Inr t) \<and>
   \<not> renders is_zoom_out_toggle
       (DocumentTools_in_scope [''window'' \<mapsto> JNull] example_props example_stores
          True (useShouldContextualToolbarShow example_env)) \<and>
   (\<exists>t. DocumentTools_in_scope [''window'' \<mapsto> JObj []] example_props example_stores
      True (useShouldContextualToolbarShow example_env) = Inr t) \<and>
   \<not> renders is_zoom_out_toggle
       (DocumentTools_in_scope [''window'' \<mapsto> JObj []] example_props example_stores
          True (useShouldContextualToolbarShow example_env)) \<and>
   (\<exists>t. DocumentTools_in_scope
      [''window'' \<mapsto> JObj [(''__experimentalEnableZoomedOutView'', JUndefined)]]
      example_props example_stores True (useShouldContextualToolbarShow example_env) = Inr t) \<and>
   \<not> renders is_zoom_out_toggle
       (DocumentTools_in_scope
          [''window'' \<mapsto> JObj [(''__experimentalEnableZoomedOutView'', JUndefined)]]
          example_props example_stores True (useShouldContextualToolbarShow example_env))"
  using
    absent_experiment_flag [of "[''window'' \<mapsto> JUndefined]" JUndefined example_stores
      example_props True "useShouldContextualToolbarShow example_env"]
    absent_experiment_flag [of "[''window'' \<mapsto> JNull]" JNull example_stores
      example_props True "useShouldContextualToolbarShow example_env"]
    absent_experiment_flag [of "[''window'' \<mapsto> JObj []]" "JObj []" example_stores
      example_props True "useShouldContextualToolbarShow example_env"]
    absent_experiment_flag
      [of "[''window'' \<mapsto> JObj [(''__experimentalEnableZoomedOutView'', JUndefined)]]"
        "JObj [(''__experimentalEnableZoomedOutView'', JUndefined)]" example_stores
        example_props True "useShouldContextualToolbarShow example_env"]
  by simp

theorem undeclared_window_counterexample:
  "(Map.empty :: scope) ''window'' = None \<and>
   isZoomedOutViewExperimentEnabled_in_scope Map.empty True = Inl ReferenceError \<and>
   DocumentTools_in_scope Map.empty example_props example_stores True
     (useShouldContextualToolbarShow example_env) = Inl ReferenceError"
  by (simp add: DocumentTools_in_scope_def isZoomedOutViewExperimentEnabled_in_scope_def
      resolve_identifier_def)

text \<open>
  C10. Two snapshots that differ only in the preview device type give the same render:
  the same tree with the same handlers. The callback of \<^verbatim>\<open>useSelect\<close> does read the
  device type into \<^verbatim>\<open>deviceType\<close>, which the component never takes out.
\<close>

theorem device_type_not_observed:
  "DocumentTools p (st\<lparr>experimentalGetPreviewDeviceType := d\<rparr>) e = DocumentTools p st e \<and>
   deviceType (mapSelect (st\<lparr>experimentalGetPreviewDeviceType := d\<rparr>)) = d"
  by (simp add: DocumentTools_def experiment_eq mapSelect_def Let_def item_defs)

theorem device_type_not_observed_witness:
  "DocumentTools example_props (example_stores\<lparr>experimentalGetPreviewDeviceType := ''Mobile''\<rparr>)
     example_env = DocumentTools example_props example_stores example_env \<and>
   deviceType (mapSelect (example_stores\<lparr>experimentalGetPreviewDeviceType := ''Mobile''\<rparr>)) =
     ''Mobile''"
  by (rule device_type_not_observed)

end
